theory Spec2Isabelle
  imports Complex_Main "HOL-Library.AList" "HOL-Library.Sublist"
begin

section \<open>Python values used by \<^verbatim>\<open>app.py\<close>\<close>

text \<open>
  The module is dynamically typed: \<^verbatim>\<open>normalize\<close> receives either one usage record
  (a dict from field names to numbers), a dict from dates to such records, or a sequence
  of records, and decides by \<^verbatim>\<open>'memuse' in data\<close>. The values that can flow through
  the scoring and ranking code are therefore modelled as one datatype: numbers, strings,
  lists, dicts (insertion ordered, as association lists) and the class object
  \<^verbatim>\<open>datetime.date\<close>, which the module binds to the global name \<^verbatim>\<open>date\<close>.
  Numbers are real numbers: the rounding of Python floats is not modelled.
\<close>

datatype pykey = KStr string | KNum real | KDate

datatype pyval =
    PNum real
  | PStr string
  | PClass_date
  | PList "pyval list"
  | PDict "(pykey \<times> pyval) list"

datatype error =
  NameError | KeyError | TypeError | ZeroDivisionError | ValueError | IndexError

text \<open>The result of a call together with the state of its \<^verbatim>\<open>data\<close> argument afterwards.\<close>

type_synonym outcome = "(error + pyval) \<times> pyval"

definition rbind :: "error + 'a \<Rightarrow> ('a \<Rightarrow> error + 'b) \<Rightarrow> error + 'b" where
  "rbind m f = (case m of Inl e \<Rightarrow> Inl e | Inr v \<Rightarrow> f v)"

fun key_val :: "pykey \<Rightarrow> pyval" where
  "key_val (KStr s) = PStr s"
| "key_val (KNum x) = PNum x"
| "key_val KDate = PClass_date"

text \<open>Hashing a value to use it as a dict key: lists and dicts are unhashable.\<close>

fun hash_key :: "pyval \<Rightarrow> error + pykey" where
  "hash_key (PStr s) = Inr (KStr s)"
| "hash_key (PNum x) = Inr (KNum x)"
| "hash_key PClass_date = Inr KDate"
| "hash_key (PList xs) = Inl TypeError"
| "hash_key (PDict kvs) = Inl TypeError"

text \<open>\<^verbatim>\<open>obj['name']\<close>: only a dict can be subscripted by a string.\<close>

fun getitem_str :: "pyval \<Rightarrow> string \<Rightarrow> error + pyval" where
  "getitem_str (PDict kvs) s =
     (case map_of kvs (KStr s) of None \<Rightarrow> Inl KeyError | Some v \<Rightarrow> Inr v)"
| "getitem_str (PList xs) s = Inl TypeError"
| "getitem_str (PStr t) s = Inl TypeError"
| "getitem_str (PNum x) s = Inl TypeError"
| "getitem_str PClass_date s = Inl TypeError"

text \<open>\<^verbatim>\<open>obj[date]\<close>, where \<^verbatim>\<open>date\<close> is the class imported from \<^verbatim>\<open>datetime\<close>.\<close>

fun getitem_date :: "pyval \<Rightarrow> error + pyval" where
  "getitem_date (PDict kvs) =
     (case map_of kvs KDate of None \<Rightarrow> Inl KeyError | Some v \<Rightarrow> Inr v)"
| "getitem_date (PList xs) = Inl TypeError"
| "getitem_date (PStr t) = Inl TypeError"
| "getitem_date (PNum x) = Inl TypeError"
| "getitem_date PClass_date = Inl TypeError"

text \<open>\<^verbatim>\<open>obj['name'] = v\<close>: an existing key keeps its position, a new key is appended.\<close>

fun setitem_str :: "pyval \<Rightarrow> string \<Rightarrow> pyval \<Rightarrow> error + pyval" where
  "setitem_str (PDict kvs) s v = Inr (PDict (AList.update (KStr s) v kvs))"
| "setitem_str (PList xs) s v = Inl TypeError"
| "setitem_str (PStr t) s v = Inl TypeError"
| "setitem_str (PNum x) s v = Inl TypeError"
| "setitem_str PClass_date s v = Inl TypeError"

text \<open>
  The state of \<^verbatim>\<open>data\<close> after the object stored under the key \<^verbatim>\<open>date\<close> has become
  \<open>v\<close> (the callee mutates that object in place).
\<close>

fun store_date :: "pyval \<Rightarrow> pyval \<Rightarrow> pyval" where
  "store_date (PDict kvs) v = PDict (AList.update KDate v kvs)"
| "store_date d v = d"

text \<open>\<^verbatim>\<open>'name' in obj\<close>: key test on a dict, element test on a list, substring test on a string.\<close>

fun py_contains :: "string \<Rightarrow> pyval \<Rightarrow> error + bool" where
  "py_contains s (PDict kvs) = Inr (KStr s \<in> set (map fst kvs))"
| "py_contains s (PList xs) = Inr (PStr s \<in> set xs)"
| "py_contains s (PStr t) = Inr (sublist s t)"
| "py_contains s (PNum x) = Inl TypeError"
| "py_contains s PClass_date = Inl TypeError"

text \<open>The items a \<^verbatim>\<open>for\<close> loop visits: keys of a dict, elements of a list, characters of a string.\<close>

fun py_iter :: "pyval \<Rightarrow> error + pyval list" where
  "py_iter (PDict kvs) = Inr (map (\<lambda>kv. key_val (fst kv)) kvs)"
| "py_iter (PList xs) = Inr xs"
| "py_iter (PStr t) = Inr (map (\<lambda>c. PStr [c]) t)"
| "py_iter (PNum x) = Inl TypeError"
| "py_iter PClass_date = Inl TypeError"

text \<open>True division \<^verbatim>\<open>a / b\<close>: defined on two numbers with a nonzero divisor.\<close>

fun py_div :: "pyval \<Rightarrow> pyval \<Rightarrow> error + real" where
  "py_div (PNum a) (PNum b) = (if b = 0 then Inl ZeroDivisionError else Inr (a / b))"
| "py_div a b = Inl TypeError"

text \<open>
  \<^verbatim>\<open>a * b\<close> as the divisor of the cpu ratio. Where an operand is not a number the product
  is either a TypeError or a repeated sequence, and dividing by a sequence is a TypeError:
  the statement raises TypeError in both cases.
\<close>

fun py_mul :: "pyval \<Rightarrow> pyval \<Rightarrow> error + pyval" where
  "py_mul (PNum a) (PNum b) = Inr (PNum (a * b))"
| "py_mul a b = Inl TypeError"

definition real_div :: "real \<Rightarrow> real \<Rightarrow> error + real" where
  "real_div a b = (if b = 0 then Inl ZeroDivisionError else Inr (a / b))"

definition mean :: "real list \<Rightarrow> real" where
  "mean xs = sum_list xs / real (length xs)"

section \<open>Module level: imports and configuration\<close>

text \<open>
  The names bound in the module's global namespace by its \<^verbatim>\<open>import\<close> statements
  (lines 13 to 22), its assignments and its function definitions. A global name that is
  looked up and is neither in this list nor a builtin raises NameError; the two names looked
  up below, \<^verbatim>\<open>statistics\<close> and \<^verbatim>\<open>getStats\<close>, are not builtins.
\<close>

definition module_names :: "string list" where
  "module_names =
     [''sys'', ''time'', ''ConfigParser'', ''date'', ''timedelta'', ''SequenceMatcher'',
      ''pygal'', ''Flask'', ''render_template'', ''request'', ''url_for'', ''redirect'',
      ''jobstats'', ''app'', ''config'', ''username'', ''password'', ''host'', ''db'',
      ''normalize_scores_options'', ''normalize_by_score'', ''ideal_score'', ''arg'',
      ''getScore'', ''normalize'', ''getTop'', ''getTimeframe'', ''renderAccountsBoxPlot'',
      ''renderUsersBoxPlot'', ''renderUsersLineGraph'', ''renderAccountsLineGraph'',
      ''renderClusterLineGraph'', ''renderGraph'', ''home'', ''renderAccountLineGraph'',
      ''renderAccountUsersGraph'', ''viewAccount'', ''renderUserAccountLineGraph'',
      ''viewUser'']"

definition lookup_global :: "string \<Rightarrow> error + unit" where
  "lookup_global name = (if name \<in> set module_names then Inr () else Inl NameError)"

text \<open>
  The two globals set from \<^verbatim>\<open>config.ini\<close> at lines 44 to 51. Without a
  \<^verbatim>\<open>score\<close> option they stay \<^verbatim>\<open>False\<close> and \<^verbatim>\<open>0\<close>.
\<close>

record config =
  normalize_by_score :: bool
  ideal_score :: real

definition config_disabled :: config where
  "config_disabled = \<lparr>normalize_by_score = False, ideal_score = 0\<rparr>"

definition config_enabled :: "real \<Rightarrow> config" where
  "config_enabled ideal = \<lparr>normalize_by_score = True, ideal_score = ideal\<rparr>"

section \<open>getScore\<close>

definition getScore_result :: "config \<Rightarrow> pyval \<Rightarrow> bool \<Rightarrow> error + pyval" where
  "getScore_result cfg data all_scores =
     rbind (getitem_str data ''memuse'') (\<lambda>mu.
     rbind (getitem_str data ''memreq'') (\<lambda>mr.
     rbind (py_div mu mr) (\<lambda>score_memory.
     rbind (getitem_str data ''cputime'') (\<lambda>ct.
     rbind (getitem_str data ''coresreq'') (\<lambda>cr.
     rbind (getitem_str data ''timeuse'') (\<lambda>tu.
     rbind (py_mul cr tu) (\<lambda>den.
     rbind (py_div ct den) (\<lambda>score_cpu.
     rbind (getitem_str data ''timeuse'') (\<lambda>tu2.
     rbind (getitem_str data ''timereq'') (\<lambda>tr.
     rbind (py_div tu2 tr) (\<lambda>score_time.
     rbind (lookup_global ''statistics'') (\<lambda>_.
     let numerator = mean [score_memory, score_cpu, score_time];
         denominator = (if normalize_by_score cfg then ideal_score cfg else 1)
     in rbind (real_div numerator denominator) (\<lambda>q.
          if \<not> all_scores then Inr (PNum (q * 100))
          else Inr (PDict [(KStr ''total'', PNum (q * 100)),
                           (KStr ''cores'', PNum score_cpu),
                           (KStr ''memory'', PNum score_memory),
                           (KStr ''tlimit'', PNum score_time)]))))))))))))))"

text \<open>No statement of \<^verbatim>\<open>getScore\<close> stores into \<^verbatim>\<open>data\<close>.\<close>

definition getScore :: "config \<Rightarrow> pyval \<Rightarrow> bool \<Rightarrow> outcome" where
  "getScore cfg data all_scores = (getScore_result cfg data all_scores, data)"

section \<open>normalize\<close>

text \<open>Lines 110 to 114: the score of a single data point.\<close>

definition point_score :: "config \<Rightarrow> pyval \<Rightarrow> error + real" where
  "point_score cfg data =
     rbind (getitem_str data ''memuse'') (\<lambda>mu.
     rbind (getitem_str data ''memreq'') (\<lambda>mr.
     rbind (py_div mu mr) (\<lambda>memory.
     rbind (getitem_str data ''timeuse'') (\<lambda>tu.
     rbind (getitem_str data ''timereq'') (\<lambda>tr.
     rbind (py_div tu tr) (\<lambda>time.
     rbind (getitem_str data ''cputime'') (\<lambda>ct.
     rbind (getitem_str data ''timeuse'') (\<lambda>tu2.
     rbind (getitem_str data ''cpureq'') (\<lambda>cr.
     rbind (py_mul tu2 cr) (\<lambda>den.
     rbind (py_div ct den) (\<lambda>cpu.
     rbind (lookup_global ''statistics'') (\<lambda>_.
     real_div (mean [memory, time, cpu]) (ideal_score cfg)))))))))))))"

text \<open>Lines 110 to 121: with \<^verbatim>\<open>all_scores\<close> the score is stored into \<^verbatim>\<open>data\<close> itself.\<close>

definition normalize_point :: "config \<Rightarrow> pyval \<Rightarrow> bool \<Rightarrow> outcome" where
  "normalize_point cfg data all_scores =
     (case point_score cfg data of
        Inl e \<Rightarrow> (Inl e, data)
      | Inr score \<Rightarrow>
          if all_scores then
            (case setitem_str data ''total'' (PNum score) of
               Inl e \<Rightarrow> (Inl e, data)
             | Inr data' \<Rightarrow> (Inr data', data'))
          else (Inr (PNum score), data))"

text \<open>Lines 135 to 142: the accumulator of the sum over days.\<close>

definition data_total_init :: "(string \<times> real) list" where
  "data_total_init =
     [(''memuse'', 0), (''memreq'', 0), (''timeuse'', 0),
      (''timereq'', 0), (''cputime'', 0), (''cpureq'', 0)]"

text \<open>
  Line 146, \<^verbatim>\<open>data_total[val] += day[val]\<close>: the accumulator is read first (KeyError
  for a hashable \<^verbatim>\<open>val\<close> that is not one of its keys, TypeError for an unhashable one),
  then \<^verbatim>\<open>day[val]\<close>, then the sum is stored. The accumulator only ever has string keys
  and numeric values.
\<close>

fun add_val :: "pyval \<Rightarrow> (string \<times> real) list \<Rightarrow> pyval \<Rightarrow> error + (string \<times> real) list" where
  "add_val day data_total (PStr s) =
     (case map_of data_total s of
        None \<Rightarrow> Inl KeyError
      | Some cur \<Rightarrow>
          rbind (getitem_str day s) (\<lambda>v.
            case v of
              PNum x \<Rightarrow> Inr (AList.update s (cur + x) data_total)
            | _ \<Rightarrow> Inl TypeError))"
| "add_val day data_total (PNum x) = Inl KeyError"
| "add_val day data_total PClass_date = Inl KeyError"
| "add_val day data_total (PList xs) = Inl TypeError"
| "add_val day data_total (PDict kvs) = Inl TypeError"

text \<open>Line 145, \<^verbatim>\<open>for val in day\<close>.\<close>

fun sum_day :: "pyval \<Rightarrow> pyval list \<Rightarrow> (string \<times> real) list \<Rightarrow> error + (string \<times> real) list" where
  "sum_day day [] data_total = Inr data_total"
| "sum_day day (val # vals) data_total =
     rbind (add_val day data_total val) (sum_day day vals)"

text \<open>Line 144, \<^verbatim>\<open>for day in data\<close>.\<close>

fun sum_days :: "pyval list \<Rightarrow> (string \<times> real) list \<Rightarrow> error + (string \<times> real) list" where
  "sum_days [] data_total = Inr data_total"
| "sum_days (day # days) data_total =
     rbind (py_iter day) (\<lambda>vals.
     rbind (sum_day day vals data_total) (sum_days days))"

definition total_dict :: "(string \<times> real) list \<Rightarrow> pyval" where
  "total_dict data_total = PDict (map (\<lambda>kv. (KStr (fst kv), PNum (snd kv))) data_total)"

text \<open>
  Lines 127 to 131. Every iteration reads \<^verbatim>\<open>data[date]\<close> (the class, not the loop
  variable \<^verbatim>\<open>day\<close>), normalizes it, which may mutate that object, and stores the
  result under \<^verbatim>\<open>day\<close>.
\<close>

fun by_date_loop ::
  "(pyval \<Rightarrow> outcome) \<Rightarrow> pyval list \<Rightarrow> (pykey \<times> pyval) list \<Rightarrow> pyval \<Rightarrow> outcome" where
  "by_date_loop callee [] scores data = (Inr (PDict scores), data)"
| "by_date_loop callee (day # days) scores data =
     (case getitem_date data of
        Inl e \<Rightarrow> (Inl e, data)
      | Inr sub \<Rightarrow>
          (case callee sub of
             (Inl e, sub') \<Rightarrow> (Inl e, store_date data sub')
           | (Inr v, sub') \<Rightarrow>
               (case hash_key day of
                  Inl e \<Rightarrow> (Inl e, store_date data sub')
                | Inr k \<Rightarrow>
                    by_date_loop callee days (AList.update k v scores) (store_date data sub'))))"

lemma add_val_keys:
  "add_val day dt val = Inr dt' \<Longrightarrow> map fst dt' = map fst dt"
  by (cases val)
     (force simp: rbind_def update_keys
            split: option.splits sum.splits pyval.splits dest: map_of_SomeD)+

lemma sum_day_keys:
  "sum_day day vals dt = Inr dt' \<Longrightarrow> map fst dt' = map fst dt"
proof (induction vals arbitrary: dt)
  case Nil
  then show ?case by simp
next
  case (Cons val vals)
  then show ?case
    by (auto simp: rbind_def split: sum.splits dest: add_val_keys)
qed

lemma sum_days_keys:
  "sum_days days dt = Inr dt' \<Longrightarrow> map fst dt' = map fst dt"
proof (induction days arbitrary: dt)
  case Nil
  then show ?case by simp
next
  case (Cons day days)
  then show ?case
    by (auto simp: rbind_def split: sum.splits dest: sum_day_keys)
qed

lemma total_dict_contains:
  "py_contains s (total_dict dt) = Inr (s \<in> set (map fst dt))"
  by (auto simp: total_dict_def image_iff)

function normalize :: "config \<Rightarrow> pyval \<Rightarrow> bool \<Rightarrow> bool \<Rightarrow> outcome" where
  "normalize cfg data all_scores by_date =
     (case py_contains ''memuse'' data of
        Inl e \<Rightarrow> (Inl e, data)
      | Inr has_memuse \<Rightarrow>
          if has_memuse then normalize_point cfg data all_scores
          else if by_date then
            (case py_iter data of
               Inl e \<Rightarrow> (Inl e, data)
             | Inr days \<Rightarrow>
                 by_date_loop (\<lambda>d. normalize cfg d all_scores False) days [] data)
          else
            (case rbind (py_iter data) (\<lambda>days. sum_days days data_total_init) of
               Inl e \<Rightarrow> (Inl e, data)
             | Inr data_total \<Rightarrow>
                 (fst (normalize cfg (total_dict data_total) all_scores False), data)))"
  by pat_completeness auto
termination
proof (relation "measure (\<lambda>(cfg, data, all_scores, by_date).
          if by_date then 2
          else if py_contains ''memuse'' data = Inr True then 0 else (1::nat))")
  show "wf (measure (\<lambda>(cfg, data, all_scores, by_date).
          if by_date then 2
          else if py_contains ''memuse'' data = Inr True then 0 else (1::nat)))"
    by simp
next
  fix cfg :: config and data and all_scores by_date has_memuse :: bool and days d
  assume "\<not> has_memuse" "by_date"
  then show "((cfg, d, all_scores, False), cfg, data, all_scores, by_date)
      \<in> measure (\<lambda>(cfg, data, all_scores, by_date).
          if by_date then 2
          else if py_contains ''memuse'' data = Inr True then 0 else (1::nat))"
    by simp
next
  fix cfg :: config and data and all_scores by_date has_memuse :: bool and data_total
  assume c: "py_contains ''memuse'' data = Inr has_memuse" "\<not> has_memuse" "\<not> by_date"
    and s: "rbind (py_iter data) (\<lambda>days. sum_days days data_total_init) = Inr data_total"
  from s have "map fst data_total = map fst data_total_init"
    by (auto simp: rbind_def split: sum.splits dest: sum_days_keys)
  then have "py_contains ''memuse'' (total_dict data_total) = Inr True"
    by (simp add: total_dict_contains data_total_init_def)
  with c show "((cfg, total_dict data_total, all_scores, False), cfg, data, all_scores, by_date)
      \<in> measure (\<lambda>(cfg, data, all_scores, by_date).
          if by_date then 2
          else if py_contains ''memuse'' data = Inr True then 0 else (1::nat))"
    by simp
qed

declare normalize.simps [simp del]


section \<open>Ranking: sorted, getTop and home\<close>

text \<open>
  With \<^verbatim>\<open>all_scores\<close> and \<^verbatim>\<open>by_date\<close> left at their defaults, the value
  \<^verbatim>\<open>normalize\<close> returns is the number computed at line 114; it is the sort key and the
  argument of \<^verbatim>\<open>int\<close>.
\<close>

definition normalize_score :: "config \<Rightarrow> pyval \<Rightarrow> error + real" where
  "normalize_score cfg x =
     (case fst (normalize cfg x False False) of
        Inl e \<Rightarrow> Inl e
      | Inr (PNum r) \<Rightarrow> Inr r
      | Inr _ \<Rightarrow> Inl TypeError)"

text \<open>
  \<^verbatim>\<open>sorted(xs, key=f)\<close>: the key of every element is computed first, in order, and the
  first exception ends the call; the elements are then put in ascending order of their
  keys, elements with equal keys staying in their original order.
\<close>

fun eval_keys :: "('a \<Rightarrow> error + real) \<Rightarrow> 'a list \<Rightarrow> error + (real \<times> 'a) list" where
  "eval_keys key [] = Inr []"
| "eval_keys key (x # xs) =
     rbind (key x) (\<lambda>k.
     rbind (eval_keys key xs) (\<lambda>ks. Inr ((k, x) # ks)))"

definition py_sorted :: "('a \<Rightarrow> error + real) \<Rightarrow> 'a list \<Rightarrow> error + 'a list" where
  "py_sorted key xs = rbind (eval_keys key xs) (\<lambda>ks. Inr (map snd (sort_key fst ks)))"

text \<open>The slice \<^verbatim>\<open>xs[:num]\<close>; a negative bound counts from the end.\<close>

definition slice_to :: "'a list \<Rightarrow> int \<Rightarrow> 'a list" where
  "slice_to xs num =
     (if 0 \<le> num then take (nat num) xs else take (length xs - nat (- num)) xs)"

text \<open>
  What the database layer (\<^verbatim>\<open>jobstats\<close>, not part of the module) returns: the lists of
  account and user names, and the usage data of one account or user. The \<^verbatim>\<open>since\<close>
  argument is only handed on to it.
\<close>

record database =
  db_accounts :: "pyval list"
  db_users :: "pyval list"
  db_account_stats :: "pyval \<Rightarrow> pyval"
  db_user_stats :: "pyval \<Rightarrow> pyval"

text \<open>
  Lines 168 and 172: the key functions are lambdas of two parameters. A call with any other
  number of arguments raises TypeError before the body runs. The body looks up the global
  \<^verbatim>\<open>getStats\<close>; \<open>stats\<close> stands for what a function of that name would return.
\<close>

definition key_func :: "config \<Rightarrow> (pyval \<Rightarrow> pyval) \<Rightarrow> pyval list \<Rightarrow> error + real" where
  "key_func cfg stats args =
     (case args of
        [entity, since] \<Rightarrow>
          rbind (lookup_global ''getStats'') (\<lambda>_. normalize_score cfg (stats entity))
      | _ \<Rightarrow> Inl TypeError)"

text \<open>Lines 164 to 174; \<^verbatim>\<open>sorted\<close> calls the key function with one argument.\<close>

definition getTop :: "config \<Rightarrow> database \<Rightarrow> string \<Rightarrow> int \<Rightarrow> error + pyval list" where
  "getTop cfg db account_type num =
     (if account_type = ''users'' then
        rbind (py_sorted (\<lambda>x. key_func cfg (db_user_stats db) [x]) (db_users db))
          (\<lambda>s. Inr (slice_to s num))
      else if account_type = ''accounts'' then
        rbind (py_sorted (\<lambda>x. key_func cfg (db_account_stats db) [x]) (db_accounts db))
          (\<lambda>s. Inr (slice_to s num))
      else Inr (slice_to [] num))"

text \<open>Truth value of an object in a condition.\<close>

fun py_truthy :: "pyval \<Rightarrow> bool" where
  "py_truthy (PNum x) = (x \<noteq> 0)"
| "py_truthy (PStr t) = (t \<noteq> [])"
| "py_truthy PClass_date = True"
| "py_truthy (PList xs) = (xs \<noteq> [])"
| "py_truthy (PDict kvs) = (kvs \<noteq> [])"

text \<open>\<^verbatim>\<open>int(x)\<close> of a number truncates towards zero.\<close>

definition py_int :: "real \<Rightarrow> int" where
  "py_int x = (if 0 \<le> x then \<lfloor>x\<rfloor> else \<lceil>x\<rceil>)"

text \<open>Line 354: \<^verbatim>\<open>not view or view in ['cluster', 'accounts']\<close>.\<close>

definition accounts_view :: "string option \<Rightarrow> bool" where
  "accounts_view view =
     (case view of None \<Rightarrow> True | Some v \<Rightarrow> v = [] \<or> v \<in> set [''cluster'', ''accounts''])"

text \<open>Line 376: \<^verbatim>\<open>data['memreq'] and data['cpureq'] and data['timereq']\<close>.\<close>

definition eligible :: "pyval \<Rightarrow> error + bool" where
  "eligible data =
     rbind (getitem_str data ''memreq'') (\<lambda>mr.
       if \<not> py_truthy mr then Inr False
       else rbind (getitem_str data ''cpureq'') (\<lambda>cr.
         if \<not> py_truthy cr then Inr False
         else rbind (getitem_str data ''timereq'') (\<lambda>tr. Inr (py_truthy tr))))"

text \<open>Lines 363 to 377: gather the usage data, keeping the eligible records.\<close>

fun gather :: "(pyval \<Rightarrow> pyval) \<Rightarrow> pyval list \<Rightarrow> pyval list \<Rightarrow> error + pyval list" where
  "gather stats [] job_data = Inr job_data"
| "gather stats (i # data_points) job_data =
     rbind (setitem_str (stats i) ''owner'' i) (\<lambda>data.
     rbind (eligible data) (\<lambda>ok.
       gather stats data_points (if ok then job_data @ [data] else job_data)))"

record rank_row =
  row_rank :: nat
  row_name :: pyval
  row_cores :: pyval
  row_memory :: pyval
  row_t_limit :: pyval
  row_total :: int
  row_job_sum :: pyval

definition or_dash :: "pyval \<Rightarrow> pyval" where
  "or_dash v = (if py_truthy v then v else PStr ''-'')"

text \<open>Lines 385 to 411: one row per record, the rank being the position in the list.\<close>

fun build_ranks ::
  "config \<Rightarrow> bool \<Rightarrow> pyval list \<Rightarrow> rank_row list \<Rightarrow> error + rank_row list" where
  "build_ranks cfg acc [] account_ranks = Inr account_ranks"
| "build_ranks cfg acc (i # job_data) account_ranks =
     rbind (getitem_str i (if acc then ''account'' else ''user'')) (\<lambda>account_name.
     rbind (getitem_str i ''cores'') (\<lambda>cores.
     rbind (getitem_str i ''memory'') (\<lambda>memory.
     rbind (getitem_str i ''tlimit'') (\<lambda>t_limit.
     rbind (normalize_score cfg i) (\<lambda>score.
       build_ranks cfg acc job_data
         (account_ranks @
            [\<lparr>row_rank = length account_ranks + 1, row_name = account_name,
              row_cores = or_dash cores, row_memory = or_dash memory,
              row_t_limit = or_dash t_limit, row_total = py_int score,
              row_job_sum = PStr ''-''\<rparr>]))))))"

text \<open>Lines 346 to 411: the ranking handed to the template as \<^verbatim>\<open>account_ranks\<close>.\<close>

definition home :: "config \<Rightarrow> database \<Rightarrow> string option \<Rightarrow> error + rank_row list" where
  "home cfg db view =
     (let acc = accounts_view view;
          data_points = (if acc then db_accounts db else db_users db);
          stats = (if acc then db_account_stats db else db_user_stats db)
      in rbind (gather stats data_points []) (\<lambda>job_data.
         rbind (py_sorted (normalize_score cfg) job_data) (\<lambda>job_data.
           build_ranks cfg acc job_data [])))"

section \<open>Name resolution in viewAccount and viewUser\<close>

text \<open>\<^verbatim>\<open>max(xs)\<close> raises ValueError on an empty list.\<close>

fun py_max :: "real list \<Rightarrow> error + real" where
  "py_max [] = Inl ValueError"
| "py_max (x # xs) = Inr (fold max xs x)"

text \<open>\<^verbatim>\<open>xs.index(m)\<close>: the first position holding a value equal to \<open>m\<close>.\<close>

fun py_index :: "real list \<Rightarrow> real \<Rightarrow> error + nat" where
  "py_index [] m = Inl ValueError"
| "py_index (x # xs) m =
     (if x = m then Inr 0 else rbind (py_index xs m) (\<lambda>i. Inr (Suc i)))"

text \<open>
  Lines 523 and 524, and 631 and 632. \<open>ratio a b\<close> stands for
  \<^verbatim>\<open>SequenceMatcher(None, a, b).ratio()\<close> of the standard library.
\<close>

definition best_match ::
  "(string \<Rightarrow> string \<Rightarrow> real) \<Rightarrow> string \<Rightarrow> string list \<Rightarrow> error + string" where
  "best_match ratio search names =
     (let similarities = map (ratio search) names
      in rbind (py_max similarities) (\<lambda>m.
         rbind (py_index similarities m) (\<lambda>idx.
           if idx < length names then Inr (names ! idx) else Inl IndexError)))"

section \<open>Example inputs\<close>


text \<open>A record whose three ratios are all one half.\<close>

definition half_used :: pyval where
  "half_used =
     PDict [(KStr ''user'', PStr ''alice''),
            (KStr ''memuse'', PNum 1), (KStr ''memreq'', PNum 2),
            (KStr ''cputime'', PNum 1), (KStr ''coresreq'', PNum 2),
            (KStr ''cpureq'', PNum 2), (KStr ''timeuse'', PNum 1),
            (KStr ''timereq'', PNum 2)]"

text \<open>A record with exactly the six fields that the sum over days accumulates.\<close>

definition six_fields :: pyval where
  "six_fields =
     PDict [(KStr ''memuse'', PNum 1), (KStr ''memreq'', PNum 2),
            (KStr ''timeuse'', PNum 1), (KStr ''timereq'', PNum 2),
            (KStr ''cputime'', PNum 1), (KStr ''cpureq'', PNum 2)]"

definition one_day :: pyval where
  "one_day = PDict [(KStr ''2018-01-01'', six_fields)]"

text \<open>The shape the comment at line 123 documents.\<close>

definition documented_days :: pyval where
  "documented_days = PDict [(KStr ''1/1/18'', six_fields)]"

definition two_users_db :: database where
  "two_users_db =
     \<lparr>db_accounts = [], db_users = [PStr ''alice'', PStr ''bob''],
      db_account_stats = (\<lambda>_. half_used), db_user_stats = (\<lambda>_. half_used)\<rparr>"



text \<open>An account with nothing requested.\<close>

definition unrequested :: pyval where
  "unrequested =
     PDict [(KStr ''account'', PStr ''empty''),
            (KStr ''memuse'', PNum 0), (KStr ''memreq'', PNum 0),
            (KStr ''cputime'', PNum 0), (KStr ''coresreq'', PNum 0),
            (KStr ''cpureq'', PNum 0), (KStr ''timeuse'', PNum 0),
            (KStr ''timereq'', PNum 0)]"

definition unrequested_db :: database where
  "unrequested_db =
     \<lparr>db_accounts = [PStr ''empty''], db_users = [],
      db_account_stats = (\<lambda>_. unrequested), db_user_stats = (\<lambda>_. unrequested)\<rparr>"



text \<open>A stand-in for the similarity ratio: 1 for identical strings, 0 otherwise.\<close>

definition exact_ratio :: "string \<Rightarrow> string \<Rightarrow> real" where
  "exact_ratio a b = (if a = b then 1 else 0)"

section \<open>Basic facts\<close>

lemma rbind_simps [simp]:
  "rbind (Inl e) f = Inl e"
  "rbind (Inr v) f = f v"
  by (simp_all add: rbind_def)

lemma statistics_unbound: "lookup_global ''statistics'' = Inl NameError"
  by (simp add: lookup_global_def module_names_def)


lemma point_score_fails: "\<exists>e. point_score cfg data = Inl e"
  unfolding point_score_def rbind_def
  by (auto simp: statistics_unbound split: sum.splits)

lemma normalize_point_fails: "\<exists>e. normalize_point cfg data a = (Inl e, data)"
  using point_score_fails [of cfg data] by (auto simp: normalize_point_def)

lemma normalize_flat_fails: "\<exists>e. normalize cfg data a False = (Inl e, data)"
proof (cases "py_contains ''memuse'' data")
  case (Inl e)
  then show ?thesis by (simp add: normalize.simps)
next
  case (Inr has)
  show ?thesis
  proof (cases has)
    case True
    with Inr show ?thesis
      using normalize_point_fails [of cfg data a] by (simp add: normalize.simps)
  next
    case False
    show ?thesis
    proof (cases "rbind (py_iter data) (\<lambda>days. sum_days days data_total_init)")
      case (Inl e)
      with Inr False show ?thesis by (simp add: normalize.simps)
    next
      case r: (Inr dt)
      then have "map fst dt = map fst data_total_init"
        by (auto simp: rbind_def split: sum.splits dest: sum_days_keys)
      then have c: "py_contains ''memuse'' (total_dict dt) = Inr True"
        by (simp add: total_dict_contains data_total_init_def)
      obtain e where "normalize_point cfg (total_dict dt) a = (Inl e, total_dict dt)"
        using normalize_point_fails by blast
      with c have "fst (normalize cfg (total_dict dt) a False) = Inl e"
        by (simp add: normalize.simps)
      with Inr False r show ?thesis by (simp add: normalize.simps)
    qed
  qed
qed




lemma py_max_Max: "xs \<noteq> [] \<Longrightarrow> py_max xs = Inr (Max (set xs))"
proof (cases xs)
  case Nil
  assume "xs \<noteq> []"
  with Nil show ?thesis by simp
next
  case (Cons a list)
  then show ?thesis using Max.set_eq_fold [of a list] by simp
qed

lemma py_index_first:
  "m \<in> set xs \<Longrightarrow>
   \<exists>i < length xs. py_index xs m = Inr i \<and> xs ! i = m \<and> (\<forall>j < i. xs ! j \<noteq> m)"
proof (induction xs)
  case Nil
  then show ?case by simp
next
  case (Cons x xs)
  show ?case
  proof (cases "x = m")
    case True
    then show ?thesis by simp
  next
    case False
    with Cons obtain i where i: "i < length xs" "py_index xs m = Inr i" "xs ! i = m"
      "\<forall>j < i. xs ! j \<noteq> m" by auto
    have "\<forall>j < Suc i. (x # xs) ! j \<noteq> m"
      using False i(4) by (auto simp: nth_Cons split: nat.splits)
    with False i show ?thesis by (intro exI [of _ "Suc i"]) simp
  qed
qed

lemma best_match_props:
  assumes "names \<noteq> []"
  shows "\<exists>i < length names. best_match ratio q names = Inr (names ! i)
     \<and> (\<forall>c \<in> set names. ratio q c \<le> ratio q (names ! i))
     \<and> (\<forall>j < i. ratio q (names ! j) < ratio q (names ! i))"
proof -
  let ?sims = "map (ratio q) names"
  let ?m = "Max (set ?sims)"
  from assms have ne: "?sims \<noteq> []" by simp
  then have mx: "py_max ?sims = Inr ?m" by (rule py_max_Max)
  have "?m \<in> set ?sims" using ne by (intro Max_in) auto
  then obtain i where i: "i < length ?sims" "py_index ?sims ?m = Inr i" "?sims ! i = ?m"
    "\<forall>j < i. ?sims ! j \<noteq> ?m" using py_index_first by blast
  have le: "\<And>c. c \<in> set names \<Longrightarrow> ratio q c \<le> ?m" by (intro Max_ge) auto
  have eq: "ratio q (names ! i) = ?m" using i(1,3) by simp
  have "\<forall>j < i. ratio q (names ! j) < ratio q (names ! i)"
  proof (intro allI impI)
    fix j assume j: "j < i"
    then have "ratio q (names ! j) \<noteq> ?m" using i(1,4) by auto
    moreover have "ratio q (names ! j) \<le> ?m" using j i(1) by (intro le) simp
    ultimately show "ratio q (names ! j) < ratio q (names ! i)" using eq by simp
  qed
  moreover have "best_match ratio q names = Inr (names ! i)"
    using mx i(1,2) by (simp add: best_match_def Let_def)
  ultimately show ?thesis using i(1) le eq by auto
qed

lemma normalize_score_fails: "\<exists>e. normalize_score cfg x = Inl e"
  using normalize_flat_fails [of cfg x False] by (auto simp: normalize_score_def)

lemma eval_keys_first_error: "key x = Inl e \<Longrightarrow> eval_keys key (x # xs) = Inl e"
  by simp

lemma py_sorted_nonempty_fails:
  assumes "\<And>x. \<exists>e. key x = Inl e" and "xs \<noteq> []"
  shows "\<exists>e. py_sorted key xs = Inl e"
proof (cases xs)
  case Nil
  with assms(2) show ?thesis by simp
next
  case (Cons x ys)
  from assms(1) obtain e where "key x = Inl e" by blast
  with Cons show ?thesis by (simp add: py_sorted_def)
qed

lemma py_sorted_ascending_stable:
  "py_sorted (\<lambda>x. Inr (fst x)) [(3::real, ''c''), (1, ''b''), (3, ''a''), (2, ''d'')] =
     Inr [(1, ''b''), (2, ''d''), (3, ''c''), (3, ''a'')]"
  by (simp add: py_sorted_def)

lemma key_func_one_argument: "key_func cfg stats [x] = Inl TypeError"
  by (simp add: key_func_def)

lemma getTop_nonempty_TypeError:
  "db_users db \<noteq> [] \<Longrightarrow> getTop cfg db ''users'' num = Inl TypeError"
  "db_accounts db \<noteq> [] \<Longrightarrow> getTop cfg db ''accounts'' num = Inl TypeError"
  by (cases "db_users db"; simp add: getTop_def py_sorted_def key_func_one_argument)
     (cases "db_accounts db"; simp add: getTop_def py_sorted_def key_func_one_argument)

lemma home_returns_empty: "home cfg db view = Inr ranks \<Longrightarrow> ranks = []"
proof -
  assume h: "home cfg db view = Inr ranks"
  let ?acc = "accounts_view view"
  let ?stats = "if ?acc then db_account_stats db else db_user_stats db"
  let ?pts = "if ?acc then db_accounts db else db_users db"
  from h obtain jd where g: "gather ?stats ?pts [] = Inr jd"
    by (cases "gather ?stats ?pts []") (simp_all add: home_def Let_def)
  have "jd = []"
  proof (rule ccontr)
    assume "jd \<noteq> []"
    then obtain e where "py_sorted (normalize_score cfg) jd = Inl e"
      using py_sorted_nonempty_fails [of "normalize_score cfg" jd] normalize_score_fails
      by blast
    with g h show False by (simp add: home_def Let_def)
  qed
  with g h show ?thesis by (simp add: home_def Let_def py_sorted_def)
qed



section \<open>The score calculator\<close>



text \<open>
  C2. The claim: with all denominators nonzero, \<^verbatim>\<open>getScore\<close> and the single-record
  path of \<^verbatim>\<open>normalize\<close> return the mean of the three ratios times 100, divided by 1
  with normalization disabled and by 2.0 with normalization enabled. On the record
  \<open>half_used\<close>, whose ratios are all one half, that is 50 and 25. The code returns
  neither: both functions raise NameError, with either configuration.
\<close>

theorem score_of_half_used_is_NameError:
  "getScore config_disabled half_used False = (Inl NameError, half_used)
   \<and> getScore (config_enabled 2) half_used False = (Inl NameError, half_used)
   \<and> normalize config_disabled half_used False False = (Inl NameError, half_used)
   \<and> normalize (config_enabled 2) half_used False False = (Inl NameError, half_used)"
  by (simp add: getScore_def getScore_result_def normalize.simps normalize_point_def
      point_score_def half_used_def statistics_unbound)

section \<open>Aggregation\<close>

text \<open>
  C4. The claim: aggregation by date scores every date from that date's own record and
  returns a mapping whose keys are the input dates. On a mapping from one date to one
  record the code raises KeyError: line 129 subscripts the mapping with the class
  \<^verbatim>\<open>date\<close> instead of the loop variable \<^verbatim>\<open>day\<close>.
\<close>

theorem by_date_of_one_day_is_KeyError:
  "normalize config_disabled one_day False True = (Inl KeyError, one_day)
   \<and> normalize config_disabled one_day True True = (Inl KeyError, one_day)"
  by (simp add: normalize.simps one_day_def)

text \<open>
  C5. The claim: aggregation into a total sums every field over the per-day records and
  scores the combined record. On the mapping from a date to a record that the comment at
  line 123 documents, the code raises KeyError: the loop at lines 144 to 146 iterates the
  characters of the date key. On a list of two records the sums are formed and scoring the
  combined record raises NameError.
\<close>

theorem total_of_documented_days_is_KeyError:
  "normalize config_disabled documented_days False False = (Inl KeyError, documented_days)
   \<and> normalize config_disabled (PList [six_fields, six_fields]) False False =
       (Inl NameError, PList [six_fields, six_fields])"
  by (simp add: normalize.simps documented_days_def six_fields_def data_total_init_def
      total_dict_def normalize_point_def point_score_def statistics_unbound)

text \<open>
  C7, as amended. Aggregating the empty input into a total raises ZeroDivisionError (the
  combined record is all zero and its memory ratio is 0 / 0), for the empty list and for the
  empty mapping; aggregating the empty input by date returns the empty mapping.
\<close>

theorem aggregate_empty_input:
  "normalize cfg (PList []) all_scores False = (Inl ZeroDivisionError, PList [])
   \<and> normalize cfg (PDict []) all_scores False = (Inl ZeroDivisionError, PDict [])
   \<and> normalize cfg (PList []) all_scores True = (Inr (PDict []), PList [])
   \<and> normalize cfg (PDict []) all_scores True = (Inr (PDict []), PDict [])"
  by (simp add: normalize.simps data_total_init_def total_dict_def normalize_point_def
      point_score_def)

text \<open>
  C7 as stated fails: the total of the empty sequence is an exception, not a sentinel value.
\<close>

theorem total_of_empty_raises:
  "fst (normalize config_disabled (PList []) False False) = Inl ZeroDivisionError"
  by (simp add: normalize.simps data_total_init_def total_dict_def normalize_point_def
      point_score_def)


section \<open>Zero denominators\<close>




section \<open>Ranking\<close>

text \<open>
  C1. The claim: the ranking that \<^verbatim>\<open>getTop\<close> returns, and the one \<^verbatim>\<open>home\<close> builds,
  is in descending order of score, ties in ascending order of name, ranks counting from 1.
  With two users in the database no ranking is returned at all: \<^verbatim>\<open>getTop\<close> raises
  TypeError, because \<^verbatim>\<open>sorted\<close> calls the two-parameter key function with one argument,
  and \<^verbatim>\<open>home\<close> raises NameError from the score used as sort key.
\<close>

theorem ranking_of_two_users_raises:
  "getTop config_disabled two_users_db ''users'' 2 = Inl TypeError
   \<and> home config_disabled two_users_db (Some ''users'') = Inl NameError"
  by (simp add: getTop_def home_def accounts_view_def two_users_db_def half_used_def
      eligible_def py_sorted_def key_func_def normalize_score_def normalize.simps
      normalize_point_def point_score_def statistics_unbound)

text \<open>
  C8. The claim: an entity whose record has a zero \<^verbatim>\<open>memreq\<close>, \<^verbatim>\<open>cpureq\<close> or
  \<^verbatim>\<open>timereq\<close> is filtered out before scoring, in the top-N ranking and in the full
  ranking. \<^verbatim>\<open>home\<close> does so: with one such account it returns the empty ranking.
  \<^verbatim>\<open>getTop\<close> has no such test: it hands the account to the key function and the
  request ends with TypeError.
\<close>

theorem unrequested_account_in_getTop_and_home:
  "getTop config_disabled unrequested_db ''accounts'' 10 = Inl TypeError
   \<and> home config_disabled unrequested_db None = Inr []"
  by (simp add: getTop_def home_def accounts_view_def unrequested_db_def unrequested_def
      eligible_def py_sorted_def key_func_def)

section \<open>Name resolution\<close>

text \<open>
  C9. For every non-empty list of candidates and every query, name resolution returns a
  candidate whose similarity ratio to the query is the maximum over the list, and it is the
  first candidate of the list with that ratio. Where the ratio is at most 1 and is 1 exactly
  for the string identical to the query, a query that occurs in the list is returned itself.
\<close>

theorem best_match_first_maximum:
  assumes "names \<noteq> []"
  shows "\<exists>i < length names.
           best_match ratio query names = Inr (names ! i)
         \<and> (\<forall>c \<in> set names. ratio query c \<le> ratio query (names ! i))
         \<and> (\<forall>j < i. ratio query (names ! j) < ratio query (names ! i))
         \<and> ((\<forall>c. ratio query c \<le> 1) \<and> (\<forall>c. ratio query c = 1 \<longleftrightarrow> c = query)
              \<and> query \<in> set names \<longrightarrow> names ! i = query)"
proof -
  from best_match_props [OF assms, of ratio query]
  obtain i where i: "i < length names" "best_match ratio query names = Inr (names ! i)"
    "\<forall>c \<in> set names. ratio query c \<le> ratio query (names ! i)"
    "\<forall>j < i. ratio query (names ! j) < ratio query (names ! i)" by blast
  have "names ! i = query"
    if h: "(\<forall>c. ratio query c \<le> 1) \<and> (\<forall>c. ratio query c = 1 \<longleftrightarrow> c = query)
           \<and> query \<in> set names"
  proof -
    from h have "ratio query query = 1" by blast
    moreover from h i(3) have "ratio query query \<le> ratio query (names ! i)" by blast
    moreover from h have "ratio query (names ! i) \<le> 1" by blast
    ultimately have "ratio query (names ! i) = 1" by simp
    with h show ?thesis by blast
  qed
  with i show ?thesis by blast
qed

theorem best_match_first_maximum_witness:
  "[''alice'', ''alicia'', ''bob''] \<noteq> []
   \<and> (\<forall>c. exact_ratio ''alice'' c \<le> 1)
   \<and> (\<forall>c. exact_ratio ''alice'' c = 1 \<longleftrightarrow> c = ''alice'')
   \<and> ''alice'' \<in> set [''alice'', ''alicia'', ''bob'']
   \<and> best_match exact_ratio ''alice'' [''alice'', ''alicia'', ''bob''] = Inr ''alice''"
proof -
  have ne: "[''alice'', ''alicia'', ''bob''] \<noteq> []" by simp
  have r: "(\<forall>c. exact_ratio ''alice'' c \<le> 1)
      \<and> (\<forall>c. exact_ratio ''alice'' c = 1 \<longleftrightarrow> c = ''alice'')"
    by (auto simp: exact_ratio_def)
  have m: "''alice'' \<in> set [''alice'', ''alicia'', ''bob'']" by simp
  from best_match_first_maximum [OF ne, of exact_ratio "''alice''"] r m
  have "best_match exact_ratio ''alice'' [''alice'', ''alicia'', ''bob''] = Inr ''alice''"
    by metis
  with ne r m show ?thesis by blast
qed

end
